theory Spec2Isabelle
  imports Main "HOL-Library.Word"
begin

section \<open>The Anki flashcard generator API (app/main.py)\<close>

text \<open>
  A shallow embedding of the three endpoints of \<^verbatim>\<open>app/main.py\<close>:
  \<^verbatim>\<open>generate_flashcards\<close>, \<^verbatim>\<open>download_file\<close> and \<^verbatim>\<open>upload_media\<close>.

  The module is glue between collaborators that are not part of the repository. Each
  of them enters the embedding explicitly:
  \<^item> the request models (pydantic classes) are records; an \<^verbatim>\<open>Optional\<close> attribute is an
    \<open>option\<close>, and the declared \<^verbatim>\<open>Field(default=...)\<close> is applied when the JSON key is
    missing;
  \<^item> \<^verbatim>\<open>random.randrange\<close> reads an entropy stream that is passed along explicitly;
  \<^item> \<^verbatim>\<open>uuid.uuid4().hex\<close> is a string supplied by the environment of the call;
  \<^item> the classes \<^verbatim>\<open>genanki.Model\<close>, \<^verbatim>\<open>genanki.Note\<close> and \<^verbatim>\<open>genanki.Deck\<close> are records
    that hold the constructor arguments the module passes; \<^verbatim>\<open>add_note\<close> appends;
  \<^item> \<^verbatim>\<open>genanki.Package(decks).write_to_file\<close> is the library's serializer: a parameter
    of the environment that either raises or yields the bytes of the archive;
  \<^item> the file system is a finite map from path strings to nodes (a regular file with its
    bytes, or a directory). Paths are compared as strings. Writing a file fails on a
    directory, and it fails part-way when the environment of the call says so (a full
    disk); permissions and missing parent directories are outside the model.
\<close>

subsection \<open>Request and response models (lines 25--125)\<close>

type_synonym bytes = "8 word list"

record CardTemplate =
  ct_name :: string
  ct_qfmt :: string
  ct_afmt :: string

record ModelDefinition =
  md_name :: string
  md_fields :: "string list"
  md_templates :: "CardTemplate list"
  md_css :: "string option"

record Note =
  note_fields :: "string list"
  note_tags :: "string list option"
  note_guid :: "string option"

record Deck =
  deck_name :: string
  deck_description :: "string option"
  deck_notes :: "Note list"

record Package =
  pkg_decks :: "Deck list"
  pkg_model :: ModelDefinition


record FlashcardGenerationResponse =
  message :: string
  download_url :: string

record HTTPException =
  status_code :: int
  detail :: string

text \<open>
  The inbound JSON, before validation. A key of an object is missing, holds
  \<^verbatim>\<open>null\<close>, or holds a value. For an attribute declared
  \<^verbatim>\<open>Optional[T] = Field(default=d)\<close> validation yields \<^verbatim>\<open>d\<close> for a missing key,
  \<^verbatim>\<open>None\<close> for \<^verbatim>\<open>null\<close> and the value otherwise. Required attributes are present
  in every body that reaches the endpoint.
\<close>

datatype 'a json_key = Missing | JsonNull | Given 'a

definition Field_default :: "'a option \<Rightarrow> 'a json_key \<Rightarrow> 'a option" where
  "Field_default d k = (case k of Missing \<Rightarrow> d | JsonNull \<Rightarrow> None | Given v \<Rightarrow> Some v)"

record ModelDefinition_json =
  mj_name :: string
  mj_fields :: "string list"
  mj_templates :: "CardTemplate list"
  mj_css :: "string json_key"

record Note_json =
  nj_fields :: "string list"
  nj_tags :: "string list json_key"
  nj_guid :: "string json_key"

record Deck_json =
  dj_name :: string
  dj_description :: "string json_key"
  dj_notes :: "Note_json list"

record Package_json =
  pj_decks :: "Deck_json list"
  pj_model :: ModelDefinition_json

definition parse_ModelDefinition :: "ModelDefinition_json \<Rightarrow> ModelDefinition" where
  "parse_ModelDefinition j =
     \<lparr>md_name = mj_name j, md_fields = mj_fields j, md_templates = mj_templates j,
      md_css = Field_default (Some '''') (mj_css j)\<rparr>"

definition parse_Note :: "Note_json \<Rightarrow> Note" where
  "parse_Note j =
     \<lparr>note_fields = nj_fields j,
      note_tags = Field_default (Some []) (nj_tags j),
      note_guid = Field_default None (nj_guid j)\<rparr>"

definition parse_Deck :: "Deck_json \<Rightarrow> Deck" where
  "parse_Deck j =
     \<lparr>deck_name = dj_name j,
      deck_description = Field_default (Some '''') (dj_description j),
      deck_notes = map parse_Note (dj_notes j)\<rparr>"

definition parse_Package :: "Package_json \<Rightarrow> Package" where
  "parse_Package j =
     \<lparr>pkg_decks = map parse_Deck (pj_decks j),
      pkg_model = parse_ModelDefinition (pj_model j)\<rparr>"

subsection \<open>The collaborators\<close>

text \<open>A Python dict with string keys and values, as an association list.\<close>

type_synonym py_dict = "(string \<times> string) list"

definition CardTemplate_dict :: "CardTemplate \<Rightarrow> py_dict" where
  "CardTemplate_dict t = [(''name'', ct_name t), (''qfmt'', ct_qfmt t), (''afmt'', ct_afmt t)]"

record genanki_Model =
  model_id :: int
  gm_name :: string
  gm_fields :: "py_dict list"
  gm_templates :: "py_dict list"
  gm_css :: "string option"

record genanki_Note =
  gn_model :: genanki_Model
  gn_fields :: "string list"
  gn_tags :: "string list option"
  gn_guid :: "string option"

record genanki_Deck =
  deck_id :: int
  gd_name :: string
  gd_description :: "string option"
  gd_notes :: "genanki_Note list"

definition genanki_Model_init ::
  "int \<Rightarrow> string \<Rightarrow> py_dict list \<Rightarrow> py_dict list \<Rightarrow> string option \<Rightarrow> genanki_Model" where
  "genanki_Model_init i n fs ts c =
     \<lparr>model_id = i, gm_name = n, gm_fields = fs, gm_templates = ts, gm_css = c\<rparr>"

definition genanki_Note_init ::
  "genanki_Model \<Rightarrow> string list \<Rightarrow> string list option \<Rightarrow> string option \<Rightarrow> genanki_Note" where
  "genanki_Note_init m fs ts g = \<lparr>gn_model = m, gn_fields = fs, gn_tags = ts, gn_guid = g\<rparr>"

definition genanki_Deck_init :: "int \<Rightarrow> string \<Rightarrow> string option \<Rightarrow> genanki_Deck" where
  "genanki_Deck_init i n d = \<lparr>deck_id = i, gd_name = n, gd_description = d, gd_notes = []\<rparr>"

definition add_note :: "genanki_Deck \<Rightarrow> genanki_Note \<Rightarrow> genanki_Deck" where
  "add_note d n = d\<lparr>gd_notes := gd_notes d @ [n]\<rparr>"

text \<open>
  The exceptions of the model, with the text \<^verbatim>\<open>str(e)\<close> gives. \<open>LibraryError\<close> is
  whatever the serializer raises and \<open>OSError\<close> what a write raises part-way, each
  carrying its text.
\<close>

datatype python_exception = LibraryError string | IsADirectoryError string | OSError string

fun str :: "python_exception \<Rightarrow> string" where
  "str (LibraryError s) = s"
| "str (IsADirectoryError p) = ''[Errno 21] Is a directory: '' @ [CHR 0x27] @ p @ [CHR 0x27]"
| "str (OSError s) = s"

text \<open>
  \<^verbatim>\<open>random.randrange(start, stop)\<close> on a non-empty range: every value of the range
  can come out, and the generator's state advances by one draw.
\<close>

type_synonym rng = "nat \<Rightarrow> nat"

definition random_randrange :: "int \<Rightarrow> int \<Rightarrow> rng \<Rightarrow> int \<times> rng" where
  "random_randrange start stop g = (start + int (g 0) mod (stop - start), \<lambda>k. g (Suc k))"

datatype node = File bytes | Dir

type_synonym filesystem = "string \<rightharpoonup> node"

text \<open>\<^verbatim>\<open>posixpath.join\<close> for two components.\<close>

definition os_path_join :: "string \<Rightarrow> string \<Rightarrow> string" where
  "os_path_join a b =
     (if take 1 b = ''/'' then b
      else if a = [] \<or> last a = CHR ''/'' then a @ b
      else a @ ''/'' @ b)"

definition os_path_exists :: "filesystem \<Rightarrow> string \<Rightarrow> bool" where
  "os_path_exists fs p = (fs p \<noteq> None)"

text \<open>
  What surrounds one call: the storage root (\<^verbatim>\<open>OUTPUT_FOLDER\<close>, line 22), the
  UUID the call draws, the state of the random generator, the library's serializer, and
  the fault of the disk, if any: \<open>Some (n, msg)\<close> when the write of the call raises
  \<^verbatim>\<open>OSError(msg)\<close> after \<open>n\<close> bytes.
\<close>

record environment =
  OUTPUT_FOLDER :: string
  uuid4_hex :: string
  random_state :: rng
  genanki_serialize :: "genanki_Deck list \<Rightarrow> python_exception + bytes"
  disk_fault :: "(nat \<times> string) option"

text \<open>
  \<^verbatim>\<open>open(path, "wb")\<close> followed by the write of the bytes: the exception raised, if
  any, and the file system afterwards. The file is created or its content replaced; on a
  directory nothing is written; on a fault of the disk the bytes written so far remain.
\<close>

definition write_file ::
  "environment \<Rightarrow> filesystem \<Rightarrow> string \<Rightarrow> bytes \<Rightarrow> python_exception option \<times> filesystem" where
  "write_file env fs p b =
     (if fs p = Some Dir then (Some (IsADirectoryError p), fs)
      else case disk_fault env of
             None \<Rightarrow> (None, fs(p \<mapsto> File b))
           | Some (n, msg) \<Rightarrow> (Some (OSError msg), fs(p \<mapsto> File (take n b))))"

text \<open>
  \<^verbatim>\<open>genanki.Package(decks).write_to_file(file_path)\<close>: the library serializes the
  decks, or raises, and then writes the archive.
\<close>

definition write_to_file ::
  "environment \<Rightarrow> genanki_Deck list \<Rightarrow> string \<Rightarrow> filesystem \<Rightarrow>
     python_exception option \<times> filesystem" where
  "write_to_file env ds p fs =
     (case genanki_serialize env ds of
        Inl e \<Rightarrow> (Some e, fs)
      | Inr archive \<Rightarrow> write_file env fs p archive)"

subsection \<open>POST /generate\_flashcards/ (lines 131--181)\<close>

definition base_url :: string where
  "base_url = ''https://anki-gen5.onrender.com''"

text \<open>Line 145: the name of the archive.\<close>

definition generated_filename :: "environment \<Rightarrow> string" where
  "generated_filename env = ''flashcards_'' @ uuid4_hex env @ ''.apkg''"

text \<open>Lines 148--154: the model, with the first draw of the generator as its id.\<close>

definition make_model :: "ModelDefinition \<Rightarrow> rng \<Rightarrow> genanki_Model \<times> rng" where
  "make_model md g =
     (let (i, g') = random_randrange (push_bit 30 1) (push_bit 31 1) g
      in (genanki_Model_init i (md_name md)
            (map (\<lambda>field. [(''name'', field)]) (md_fields md))
            (map CardTemplate_dict (md_templates md))
            (md_css md), g'))"

text \<open>Lines 163--170: the inner loop, one \<^verbatim>\<open>genanki.Note\<close> per note, added in order.\<close>

fun add_notes :: "genanki_Model \<Rightarrow> Note list \<Rightarrow> genanki_Deck \<Rightarrow> genanki_Deck" where
  "add_notes model [] genanki_deck = genanki_deck"
| "add_notes model (note # rest) genanki_deck =
     add_notes model rest
       (add_note genanki_deck
          (genanki_Note_init model (note_fields note) (note_tags note) (note_guid note)))"

text \<open>Lines 156--171: the outer loop, one \<^verbatim>\<open>genanki.Deck\<close> per deck, each with a fresh draw.\<close>

fun make_decks ::
  "genanki_Model \<Rightarrow> Deck list \<Rightarrow> rng \<Rightarrow> genanki_Deck list \<Rightarrow> genanki_Deck list \<times> rng" where
  "make_decks model [] g genanki_decks = (genanki_decks, g)"
| "make_decks model (deck # rest) g genanki_decks =
     (let (i, g') = random_randrange (push_bit 30 1) (push_bit 31 1) g;
          genanki_deck = genanki_Deck_init i (deck_name deck) (deck_description deck)
      in make_decks model rest g'
           (genanki_decks @ [add_notes model (deck_notes deck) genanki_deck]))"

text \<open>The objects the call has in memory when it reaches line 173.\<close>

definition built_model :: "environment \<Rightarrow> Package \<Rightarrow> genanki_Model" where
  "built_model env package = fst (make_model (pkg_model package) (random_state env))"

definition built_decks :: "environment \<Rightarrow> Package \<Rightarrow> genanki_Deck list" where
  "built_decks env package =
     (let (model, g) = make_model (pkg_model package) (random_state env)
      in fst (make_decks model (pkg_decks package) g []))"

text \<open>
  Lines 145--179: the body of the \<^verbatim>\<open>try\<close>. It raises or returns the response
  model, and leaves a file system behind.
\<close>

definition generate_flashcards_try ::
  "environment \<Rightarrow> filesystem \<Rightarrow> Package \<Rightarrow>
     (python_exception + FlashcardGenerationResponse) \<times> filesystem" where
  "generate_flashcards_try env fs package =
     (let filename = generated_filename env;
          file_path = os_path_join (OUTPUT_FOLDER env) filename;
          (model, g) = make_model (pkg_model package) (random_state env);
          (genanki_decks, g') = make_decks model (pkg_decks package) g []
      in case write_to_file env genanki_decks file_path fs of
           (Some e, fs') \<Rightarrow> (Inl e, fs')
         | (None, fs') \<Rightarrow>
             (Inr \<lparr>message = ''Flashcards generated successfully'',
                   download_url = base_url @ ''/download/'' @ filename\<rparr>, fs'))"

text \<open>
  Lines 144--181: the endpoint. It answers with the response model or with the
  \<^verbatim>\<open>HTTPException\<close> it raises, and leaves a file system behind.
\<close>

definition generate_flashcards ::
  "environment \<Rightarrow> filesystem \<Rightarrow> Package \<Rightarrow>
     (HTTPException + FlashcardGenerationResponse) \<times> filesystem" where
  "generate_flashcards env fs package =
     (case generate_flashcards_try env fs package of
        (Inl e, fs') \<Rightarrow>
          (Inl \<lparr>status_code = 500,
                detail = ''An error occurred during flashcard generation: '' @ str e\<rparr>, fs')
      | (Inr response, fs') \<Rightarrow> (Inr response, fs'))"

subsection \<open>GET /download/\{filename\} (lines 186--209)\<close>

record FileResponse =
  fr_path :: string
  fr_filename :: string
  fr_media_type :: string
  fr_headers :: py_dict

definition download_file :: "environment \<Rightarrow> filesystem \<Rightarrow> string \<Rightarrow> HTTPException + FileResponse" where
  "download_file env fs filename =
     (let file_path = os_path_join (OUTPUT_FOLDER env) filename
      in if \<not> os_path_exists fs file_path
         then Inl \<lparr>status_code = 404, detail = ''File not found''\<rparr>
         else Inr \<lparr>fr_path = file_path, fr_filename = filename,
                   fr_media_type = ''application/octet-stream'',
                   fr_headers = [(''Content-Disposition'', ''attachment; filename='' @ filename)]\<rparr>)"

text \<open>The body a \<^verbatim>\<open>FileResponse\<close> streams: the bytes of the regular file at its path.\<close>

definition FileResponse_body :: "filesystem \<Rightarrow> FileResponse \<Rightarrow> bytes option" where
  "FileResponse_body fs r = (case fs (fr_path r) of Some (File b) \<Rightarrow> Some b | _ \<Rightarrow> None)"

subsection \<open>POST /upload\_media/ (lines 215--235)\<close>



subsection \<open>Auxiliary definitions\<close>

text \<open>The value the \<open>k\<close>-th call of \<^verbatim>\<open>random.randrange(1 << 30, 1 << 31)\<close> returns.\<close>

definition draw :: "rng \<Rightarrow> nat \<Rightarrow> int" where
  "draw g k = fst (random_randrange (push_bit 30 1) (push_bit 31 1) (\<lambda>j. g (k + j)))"

text \<open>The deck object the outer loop appends for the \<open>k\<close>-th deck of the request.\<close>

definition deck_built :: "genanki_Model \<Rightarrow> rng \<Rightarrow> Deck list \<Rightarrow> nat \<Rightarrow> genanki_Deck" where
  "deck_built model g ds k =
     add_notes model (deck_notes (ds ! k))
       (genanki_Deck_init (draw g k) (deck_name (ds ! k)) (deck_description (ds ! k)))"


text \<open>
  Modelled from the spec: the GUID source of a note object. The module builds no
  identifier itself: a note without guid is passed on with \<^verbatim>\<open>guid=None\<close> (line 168)
  and its identifier is synthesized inside the genanki library, which is not part of the
  repository. Section 3 of the spec: the identifier is "derived from the field values".
\<close>

definition guid_source :: "genanki_Note \<Rightarrow> string list" where
  "guid_source n = gn_fields n"

text \<open>
  Modelled from the spec: the identifier of a note object. Section 3 of the spec: "if GUID
  is absent the builder must synthesize a stable, deterministic identifier derived from the
  field values"; step 3 of section 4.2: "either the caller-supplied GUID or one synthesized
  by the builder". The synthesis is one fixed function \<open>guid_for\<close> of the GUID source;
  which function (a hash of the library) is a parameter.
\<close>

definition note_identifier :: "(string list \<Rightarrow> string) \<Rightarrow> genanki_Note \<Rightarrow> string" where
  "note_identifier guid_for n =
     (case gn_guid n of None \<Rightarrow> guid_for (guid_source n) | Some g \<Rightarrow> g)"

subsection \<open>Concrete inputs\<close>

text \<open>
  The request of the schema examples (lines 54--63 and 95--102), with a second deck, and
  the values the collaborators contribute to one call.
\<close>

definition example_model :: ModelDefinition where
  "example_model =
     \<lparr>md_name = ''Basic Model'', md_fields = [''Front'', ''Back''],
      md_templates =
        [\<lparr>ct_name = ''Card 1'', ct_qfmt = ''{{Front}}'', ct_afmt = ''{{FrontSide}}<hr>{{Back}}''\<rparr>],
      md_css = Some ''.card { font-size: 20px; }''\<rparr>"

definition example_package :: Package where
  "example_package =
     \<lparr>pkg_decks =
        [\<lparr>deck_name = ''Geography Deck'', deck_description = Some ''World geography'',
          deck_notes =
            [\<lparr>note_fields = [''Capital of France?'', ''Paris''],
              note_tags = Some [''geography'', ''europe''], note_guid = None\<rparr>,
             \<lparr>note_fields = [''Capital of Peru?'', ''Lima''],
              note_tags = Some [], note_guid = Some ''unique_identifier_123''\<rparr>]\<rparr>,
         \<lparr>deck_name = ''History Deck'', deck_description = Some [],
          deck_notes =
            [\<lparr>note_fields = [''Year of the moon landing?'', ''1969''],
              note_tags = Some [''history''], note_guid = None\<rparr>]\<rparr>],
      pkg_model = example_model\<rparr>"


text \<open>A serializer that accepts every package: one byte per deck, its number of notes.\<close>

definition lenient_serialize :: "genanki_Deck list \<Rightarrow> python_exception + bytes" where
  "lenient_serialize ds = Inr (map (\<lambda>d. of_nat (length (gd_notes d))) ds)"


definition example_env :: environment where
  "example_env =
     \<lparr>OUTPUT_FOLDER = ''/tmp'', uuid4_hex = ''0123456789abcdef0123456789abcdef'',
      random_state = (\<lambda>k. 7 * k + 3), genanki_serialize = lenient_serialize,
      disk_fault = None\<rparr>"

text \<open>The same call with a generator that returns the same value at every draw.\<close>

definition repeating_env :: environment where
  "repeating_env = example_env\<lparr>random_state := (\<lambda>k. 5)\<rparr>"


text \<open>The same call on a disk that is full after one byte.\<close>

definition full_disk_env :: environment where
  "full_disk_env = example_env\<lparr>disk_fault := Some (1, ''[Errno 28] No space left on device'')\<rparr>"

definition example_path :: string where
  "example_path = ''/tmp/flashcards_0123456789abcdef0123456789abcdef.apkg''"




text \<open>A request body that leaves out every optional key.\<close>

definition bare_json :: Package_json where
  "bare_json =
     \<lparr>pj_decks =
        [\<lparr>dj_name = ''Geography Deck'', dj_description = Missing,
          dj_notes =
            [\<lparr>nj_fields = [''Capital of France?'', ''Paris''], nj_tags = Missing,
              nj_guid = Missing\<rparr>]\<rparr>],
      pj_model =
        \<lparr>mj_name = ''Basic Model'', mj_fields = [''Front'', ''Back''],
         mj_templates =
           [\<lparr>ct_name = ''Card 1'', ct_qfmt = ''{{Front}}'', ct_afmt = ''{{Back}}''\<rparr>],
         mj_css = Missing\<rparr>\<rparr>"

section \<open>Properties\<close>

subsection \<open>The loops in closed form\<close>

lemma draw_eq: "draw g k = 1073741824 + int (g k) mod 1073741824"
  by (simp add: draw_def random_randrange_def)

lemma draw_range: "push_bit 30 1 \<le> draw g k \<and> draw g k < push_bit 31 1"
  by (simp add: draw_eq)

lemma add_notes_eq:
  "add_notes model ns d =
     d\<lparr>gd_notes := gd_notes d @
          map (\<lambda>n. genanki_Note_init model (note_fields n) (note_tags n) (note_guid n)) ns\<rparr>"
  by (induction ns arbitrary: d) (simp_all add: add_note_def)

lemma make_decks_eq:
  "make_decks model ds g acc =
     (acc @ map (deck_built model g ds) [0..<length ds], \<lambda>j. g (length ds + j))"
proof (induction ds arbitrary: g acc)
  case Nil
  show ?case by simp
next
  case (Cons d ds)
  have shift: "deck_built model g (d # ds) (Suc k) = deck_built model (\<lambda>j. g (Suc j)) ds k" for k
    by (simp add: deck_built_def draw_def)
  have first: "deck_built model g (d # ds) 0 =
      add_notes model (deck_notes d)
        (genanki_Deck_init (fst (random_randrange (push_bit 30 1) (push_bit 31 1) g))
           (deck_name d) (deck_description d))"
    by (simp add: deck_built_def draw_def)
  show ?case
    by (simp add: Cons.IH map_upt_Suc shift first random_randrange_def del: upt_Suc)
qed

lemma built_model_eq:
  "built_model env package =
     genanki_Model_init (draw (random_state env) 0) (md_name (pkg_model package))
       (map (\<lambda>field. [(''name'', field)]) (md_fields (pkg_model package)))
       (map CardTemplate_dict (md_templates (pkg_model package)))
       (md_css (pkg_model package))"
  by (simp add: built_model_def make_model_def draw_def random_randrange_def)

lemma built_decks_eq:
  "built_decks env package =
     map (deck_built (built_model env package) (\<lambda>j. random_state env (Suc j)) (pkg_decks package))
       [0..<length (pkg_decks package)]"
  by (simp add: built_decks_def built_model_def make_model_def make_decks_eq
      random_randrange_def split: prod.splits)

lemma built_decks_length: "length (built_decks env package) = length (pkg_decks package)"
  by (simp add: built_decks_eq)

lemma built_decks_nth:
  assumes "i < length (pkg_decks package)"
  shows "built_decks env package ! i =
     \<lparr>deck_id = draw (random_state env) (Suc i),
      gd_name = deck_name (pkg_decks package ! i),
      gd_description = deck_description (pkg_decks package ! i),
      gd_notes = map (\<lambda>n. genanki_Note_init (built_model env package)
                             (note_fields n) (note_tags n) (note_guid n))
                   (deck_notes (pkg_decks package ! i))\<rparr>"
  using assms
  by (simp add: built_decks_eq deck_built_def add_notes_eq genanki_Deck_init_def draw_def)

lemma generate_flashcards_try_eq:
  "generate_flashcards_try env fs package =
     (case write_to_file env (built_decks env package)
             (os_path_join (OUTPUT_FOLDER env) (generated_filename env)) fs of
        (Some e, fs') \<Rightarrow> (Inl e, fs')
      | (None, fs') \<Rightarrow>
          (Inr \<lparr>message = ''Flashcards generated successfully'',
                download_url = base_url @ ''/download/'' @ generated_filename env\<rparr>, fs'))"
  by (simp add: generate_flashcards_try_def built_decks_def Let_def split: prod.splits)

lemma generate_flashcards_try_cases:
  "generate_flashcards_try env fs package =
     (case genanki_serialize env (built_decks env package) of
        Inl e \<Rightarrow> (Inl e, fs)
      | Inr archive \<Rightarrow>
          (if fs (os_path_join (OUTPUT_FOLDER env) (generated_filename env)) = Some Dir
           then (Inl (IsADirectoryError
                   (os_path_join (OUTPUT_FOLDER env) (generated_filename env))), fs)
           else case disk_fault env of
                  None \<Rightarrow>
                    (Inr \<lparr>message = ''Flashcards generated successfully'',
                       download_url = base_url @ ''/download/'' @ generated_filename env\<rparr>,
                     fs(os_path_join (OUTPUT_FOLDER env) (generated_filename env) \<mapsto>
                          File archive))
                | Some (n, msg) \<Rightarrow>
                    (Inl (OSError msg),
                     fs(os_path_join (OUTPUT_FOLDER env) (generated_filename env) \<mapsto>
                          File (take n archive)))))"
  by (simp add: generate_flashcards_try_eq write_to_file_def write_file_def
      split: sum.splits option.splits prod.splits)

lemma generate_flashcards_eq:
  "generate_flashcards env fs package =
     (case genanki_serialize env (built_decks env package) of
        Inl e \<Rightarrow>
          (Inl \<lparr>status_code = 500,
                detail = ''An error occurred during flashcard generation: '' @ str e\<rparr>, fs)
      | Inr archive \<Rightarrow>
          (if fs (os_path_join (OUTPUT_FOLDER env) (generated_filename env)) = Some Dir
           then (Inl \<lparr>status_code = 500,
                  detail = ''An error occurred during flashcard generation: '' @
                    str (IsADirectoryError
                      (os_path_join (OUTPUT_FOLDER env) (generated_filename env)))\<rparr>, fs)
           else case disk_fault env of
                  None \<Rightarrow>
                    (Inr \<lparr>message = ''Flashcards generated successfully'',
                       download_url = base_url @ ''/download/'' @ generated_filename env\<rparr>,
                     fs(os_path_join (OUTPUT_FOLDER env) (generated_filename env) \<mapsto>
                          File archive))
                | Some (n, msg) \<Rightarrow>
                    (Inl \<lparr>status_code = 500,
                       detail = ''An error occurred during flashcard generation: '' @ msg\<rparr>,
                     fs(os_path_join (OUTPUT_FOLDER env) (generated_filename env) \<mapsto>
                          File (take n archive)))))"
  by (simp add: generate_flashcards_def generate_flashcards_try_cases
      split: sum.splits option.splits prod.splits)

subsection \<open>The concrete inputs, evaluated\<close>

lemma example_env_simps:
  "OUTPUT_FOLDER example_env = ''/tmp''"
  "uuid4_hex example_env = ''0123456789abcdef0123456789abcdef''"
  "random_state example_env = (\<lambda>k. 7 * k + 3)"
  "genanki_serialize example_env = lenient_serialize"
  "disk_fault example_env = None"
  by (simp_all add: example_env_def)

lemma example_path_eq:
  "os_path_join (OUTPUT_FOLDER example_env) (generated_filename example_env) = example_path"
  by (simp add: os_path_join_def example_env_simps generated_filename_def example_path_def)

lemma repeating_env_simps:
  "OUTPUT_FOLDER repeating_env = ''/tmp''"
  "uuid4_hex repeating_env = ''0123456789abcdef0123456789abcdef''"
  "random_state repeating_env = (\<lambda>k. 5)"
  "genanki_serialize repeating_env = lenient_serialize"
  "disk_fault repeating_env = None"
  by (simp_all add: repeating_env_def example_env_def)


lemma full_disk_env_simps:
  "OUTPUT_FOLDER full_disk_env = ''/tmp''"
  "uuid4_hex full_disk_env = ''0123456789abcdef0123456789abcdef''"
  "random_state full_disk_env = (\<lambda>k. 7 * k + 3)"
  "genanki_serialize full_disk_env = lenient_serialize"
  "disk_fault full_disk_env = Some (1, ''[Errno 28] No space left on device'')"
  by (simp_all add: full_disk_env_def example_env_def)

lemma example_package_decks:
  "pkg_decks example_package =
      [\<lparr>deck_name = ''Geography Deck'', deck_description = Some ''World geography'',
        deck_notes =
          [\<lparr>note_fields = [''Capital of France?'', ''Paris''],
            note_tags = Some [''geography'', ''europe''], note_guid = None\<rparr>,
           \<lparr>note_fields = [''Capital of Peru?'', ''Lima''],
            note_tags = Some [], note_guid = Some ''unique_identifier_123''\<rparr>]\<rparr>,
       \<lparr>deck_name = ''History Deck'', deck_description = Some [],
        deck_notes =
          [\<lparr>note_fields = [''Year of the moon landing?'', ''1969''],
            note_tags = Some [''history''], note_guid = None\<rparr>]\<rparr>]"
  by (simp add: example_package_def)

lemma built_decks_example_package:
  "built_decks env example_package =
     [\<lparr>deck_id = draw (random_state env) 1, gd_name = ''Geography Deck'',
       gd_description = Some ''World geography'',
       gd_notes =
         [genanki_Note_init (built_model env example_package)
            [''Capital of France?'', ''Paris''] (Some [''geography'', ''europe'']) None,
          genanki_Note_init (built_model env example_package)
            [''Capital of Peru?'', ''Lima''] (Some []) (Some ''unique_identifier_123'')]\<rparr>,
      \<lparr>deck_id = draw (random_state env) 2, gd_name = ''History Deck'',
       gd_description = Some [],
       gd_notes =
         [genanki_Note_init (built_model env example_package)
            [''Year of the moon landing?'', ''1969''] (Some [''history'']) None]\<rparr>]"
  unfolding built_decks_eq example_package_decks
  by (simp add: deck_built_def add_notes_eq genanki_Deck_init_def draw_eq numeral_2_eq_2)



section \<open>The claims\<close>



text \<open>
  C2, against the identifier modelled from the spec. Take a note without guid at any
  position of any request, built in any call. Its GUID source is the list of its field
  values as supplied, and its identifier is \<open>guid_for\<close> of that list: nothing of the call
  (the ids drawn, the file name, the deck, the tags) enters it. Hence two such notes with
  equal field values, in the same call or in two calls, get equal identifiers, and two
  notes whose field values differ have different GUID sources.
\<close>

theorem synthesized_guid_deterministic:
  assumes "i < length (pkg_decks package)"
    and "k < length (deck_notes (pkg_decks package ! i))"
    and "i' < length (pkg_decks package')"
    and "k' < length (deck_notes (pkg_decks package' ! i'))"
    and "note_guid (deck_notes (pkg_decks package ! i) ! k) = None"
    and "note_guid (deck_notes (pkg_decks package' ! i') ! k') = None"
  shows "guid_source (gd_notes (built_decks env package ! i) ! k) =
       note_fields (deck_notes (pkg_decks package ! i) ! k)
   \<and> note_identifier guid_for (gd_notes (built_decks env package ! i) ! k) =
       guid_for (note_fields (deck_notes (pkg_decks package ! i) ! k))
   \<and> (note_fields (deck_notes (pkg_decks package ! i) ! k) =
        note_fields (deck_notes (pkg_decks package' ! i') ! k') \<longrightarrow>
      note_identifier guid_for (gd_notes (built_decks env package ! i) ! k) =
        note_identifier guid_for (gd_notes (built_decks env' package' ! i') ! k'))
   \<and> (note_fields (deck_notes (pkg_decks package ! i) ! k) \<noteq>
        note_fields (deck_notes (pkg_decks package' ! i') ! k') \<longrightarrow>
      guid_source (gd_notes (built_decks env package ! i) ! k) \<noteq>
        guid_source (gd_notes (built_decks env' package' ! i') ! k'))"
proof -
  have built: "gd_notes (built_decks e p ! a) ! b =
      genanki_Note_init (built_model e p) (note_fields (deck_notes (pkg_decks p ! a) ! b))
        (note_tags (deck_notes (pkg_decks p ! a) ! b))
        (note_guid (deck_notes (pkg_decks p ! a) ! b))"
    if "a < length (pkg_decks p)" and "b < length (deck_notes (pkg_decks p ! a))"
    for e p a b
    using that by (simp add: built_decks_nth)
  show ?thesis
    using assms
    by (simp add: built note_identifier_def guid_source_def genanki_Note_init_def)
qed

text \<open>
  The first note of the example request, built in two calls that draw different ids, and
  its third note, whose values differ. The hash is replaced by concatenation.
\<close>

theorem synthesized_guid_deterministic_witness:
  "note_identifier concat (gd_notes (built_decks example_env example_package ! 0) ! 0) =
     ''Capital of France?Paris''
   \<and> note_identifier concat (gd_notes (built_decks repeating_env example_package ! 0) ! 0) =
     ''Capital of France?Paris''
   \<and> guid_source (gd_notes (built_decks example_env example_package ! 0) ! 0) \<noteq>
     guid_source (gd_notes (built_decks repeating_env example_package ! 1) ! 0)
   \<and> model_id (built_model example_env example_package) \<noteq>
     model_id (built_model repeating_env example_package)"
proof -
  have d0: "0 < length (pkg_decks example_package)"
    and n0: "0 < length (deck_notes (pkg_decks example_package ! 0))"
    and d1: "1 < length (pkg_decks example_package)"
    and n1: "0 < length (deck_notes (pkg_decks example_package ! 1))"
    and g0: "note_guid (deck_notes (pkg_decks example_package ! 0) ! 0) = None"
    and g1: "note_guid (deck_notes (pkg_decks example_package ! 1) ! 0) = None"
    and f0: "note_fields (deck_notes (pkg_decks example_package ! 0) ! 0) =
      [''Capital of France?'', ''Paris'']"
    and f1: "note_fields (deck_notes (pkg_decks example_package ! 1) ! 0) =
      [''Year of the moon landing?'', ''1969'']"
    by (simp_all add: example_package_decks)
  from synthesized_guid_deterministic
    [OF d0 n0 d0 n0 g0 g0,
      where guid_for = concat and env = example_env and env' = repeating_env]
  have same: "note_identifier concat (gd_notes (built_decks example_env example_package ! 0) ! 0) =
      ''Capital of France?Paris''"
    "note_identifier concat (gd_notes (built_decks example_env example_package ! 0) ! 0) =
      note_identifier concat (gd_notes (built_decks repeating_env example_package ! 0) ! 0)"
    by (auto simp add: f0)
  have "note_fields (deck_notes (pkg_decks example_package ! 0) ! 0) \<noteq>
      note_fields (deck_notes (pkg_decks example_package ! 1) ! 0)"
    unfolding f0 f1 by simp
  with synthesized_guid_deterministic
    [OF d0 n0 d1 n1 g0 g1,
      where guid_for = concat and env = example_env and env' = repeating_env]
  have differ: "guid_source (gd_notes (built_decks example_env example_package ! 0) ! 0) \<noteq>
     guid_source (gd_notes (built_decks repeating_env example_package ! 1) ! 0)"
    by blast
  have ids: "model_id (built_model example_env example_package) \<noteq>
     model_id (built_model repeating_env example_package)"
    by (simp add: built_model_eq genanki_Model_init_def draw_eq example_env_simps
        repeating_env_simps)
  from same differ ids show ?thesis by simp
qed

text \<open>
  C3, as stated, fails: nothing in the call compares the ids it draws. With a generator
  that returns the same value twice, the two decks of the example request get the same id,
  and the call succeeds.
\<close>

theorem deck_ids_collide:
  "length (pkg_decks example_package) = 2
   \<and> map deck_id (built_decks repeating_env example_package) = [1073741829, 1073741829]
   \<and> \<not> distinct (map deck_id (built_decks repeating_env example_package))
   \<and> fst (generate_flashcards repeating_env Map.empty example_package) =
       Inr \<lparr>message = ''Flashcards generated successfully'',
            download_url = ''https://anki-gen5.onrender.com/download/'' @
              ''flashcards_0123456789abcdef0123456789abcdef.apkg''\<rparr>"
  by (simp add: example_package_decks built_decks_example_package draw_eq repeating_env_simps
      generate_flashcards_eq lenient_serialize_def generated_filename_def base_url_def)

text \<open>
  C3, amended. The id of the \<open>i\<close>-th deck is the draw that follows the model's and
  the \<open>i\<close> decks before it, each draw a value of \<^verbatim>\<open>range(1 << 30, 1 << 31)\<close>. The ids
  of one call are pairwise distinct exactly when these draws are: the call does not
  enforce it.
\<close>

theorem deck_ids_are_draws:
  "map deck_id (built_decks env package) =
     map (\<lambda>i. draw (random_state env) (Suc i)) [0..<length (pkg_decks package)]
   \<and> (\<forall>d \<in> set (built_decks env package). push_bit 30 1 \<le> deck_id d \<and> deck_id d < push_bit 31 1)
   \<and> (distinct (map deck_id (built_decks env package)) \<longleftrightarrow>
        inj_on (\<lambda>i. draw (random_state env) (Suc i)) {0..<length (pkg_decks package)})"
proof -
  have ids: "map deck_id (built_decks env package) =
      map (\<lambda>i. draw (random_state env) (Suc i)) [0..<length (pkg_decks package)]"
    by (rule nth_equalityI) (simp_all add: built_decks_length built_decks_nth)
  have "push_bit 30 1 \<le> deck_id d \<and> deck_id d < push_bit 31 1"
    if "d \<in> set (built_decks env package)" for d
  proof -
    from that obtain i where "i < length (pkg_decks package)" "d = built_decks env package ! i"
      by (auto simp add: in_set_conv_nth built_decks_length)
    then have "deck_id d = draw (random_state env) (Suc i)"
      by (simp add: built_decks_nth)
    then show ?thesis
      using draw_range [of "random_state env" "Suc i"] by simp
  qed
  moreover have "distinct (map deck_id (built_decks env package)) \<longleftrightarrow>
      inj_on (\<lambda>i. draw (random_state env) (Suc i)) {0..<length (pkg_decks package)}"
    unfolding ids by (simp add: distinct_map)
  ultimately show ?thesis
    using ids by blast
qed

text \<open>With the generator of the example the two draws differ, and so do the ids.\<close>

theorem deck_ids_are_draws_witness:
  "map deck_id (built_decks example_env example_package) = [1073741834, 1073741841]
   \<and> distinct (map deck_id (built_decks example_env example_package))"
proof -
  have two: "[0..<length (pkg_decks example_package)] = [0, 1]"
    by (simp add: example_package_decks)
  from deck_ids_are_draws [of example_env example_package]
  have "map deck_id (built_decks example_env example_package) =
      map (\<lambda>i. draw (random_state example_env) (Suc i)) [0, 1]"
    unfolding two by blast
  then have "map deck_id (built_decks example_env example_package) = [1073741834, 1073741841]"
    by (simp add: draw_eq example_env_simps)
  then show ?thesis by simp
qed






text \<open>
  C6. Whatever exception \<open>e\<close> the body of the \<^verbatim>\<open>try\<close> raises, the endpoint raises
  one \<^verbatim>\<open>HTTPException\<close> with status 500 whose detail ends with \<^verbatim>\<open>str(e)\<close>, and
  returns no response model, hence no file name and no URL. The body raises what the
  serializer raises, \<^verbatim>\<open>IsADirectoryError\<close> when the generated path is a directory, and
  \<^verbatim>\<open>OSError\<close> when the disk fails during the write; only in the last case is the
  storage touched, and then a part of the archive stands at the generated path. A
  response is returned only when the serializer has produced the archive and the whole
  archive stands at the generated path.
\<close>

theorem generate_flashcards_internal_error:
  "(\<forall>e fs'. generate_flashcards_try env fs package = (Inl e, fs') \<longrightarrow>
        generate_flashcards env fs package =
          (Inl \<lparr>status_code = 500,
                detail = ''An error occurred during flashcard generation: '' @ str e\<rparr>, fs'))
   \<and> (\<forall>e. genanki_serialize env (built_decks env package) = Inl e \<longrightarrow>
        generate_flashcards_try env fs package = (Inl e, fs))
   \<and> (\<forall>archive. genanki_serialize env (built_decks env package) = Inr archive \<and>
        fs (os_path_join (OUTPUT_FOLDER env) (generated_filename env)) = Some Dir \<longrightarrow>
        generate_flashcards_try env fs package =
          (Inl (IsADirectoryError (os_path_join (OUTPUT_FOLDER env) (generated_filename env))),
           fs))
   \<and> (\<forall>archive n msg. genanki_serialize env (built_decks env package) = Inr archive \<and>
        fs (os_path_join (OUTPUT_FOLDER env) (generated_filename env)) \<noteq> Some Dir \<and>
        disk_fault env = Some (n, msg) \<longrightarrow>
        generate_flashcards_try env fs package =
          (Inl (OSError msg),
           fs(os_path_join (OUTPUT_FOLDER env) (generated_filename env) \<mapsto>
                File (take n archive))))
   \<and> (\<forall>response fs'. generate_flashcards env fs package = (Inr response, fs') \<longrightarrow>
        generate_flashcards_try env fs package = (Inr response, fs') \<and>
        (\<exists>archive. genanki_serialize env (built_decks env package) = Inr archive \<and>
           fs' = fs(os_path_join (OUTPUT_FOLDER env) (generated_filename env) \<mapsto>
                      File archive)))"
proof (intro conjI allI impI)
  fix e fs' assume "generate_flashcards_try env fs package = (Inl e, fs')"
  then show "generate_flashcards env fs package =
      (Inl \<lparr>status_code = 500,
            detail = ''An error occurred during flashcard generation: '' @ str e\<rparr>, fs')"
    by (simp add: generate_flashcards_def)
next
  fix e assume "genanki_serialize env (built_decks env package) = Inl e"
  then show "generate_flashcards_try env fs package = (Inl e, fs)"
    by (simp add: generate_flashcards_try_cases)
next
  fix archive
  assume "genanki_serialize env (built_decks env package) = Inr archive \<and>
    fs (os_path_join (OUTPUT_FOLDER env) (generated_filename env)) = Some Dir"
  then show "generate_flashcards_try env fs package =
      (Inl (IsADirectoryError (os_path_join (OUTPUT_FOLDER env) (generated_filename env))), fs)"
    by (simp add: generate_flashcards_try_cases)
next
  fix archive n msg
  assume "genanki_serialize env (built_decks env package) = Inr archive \<and>
    fs (os_path_join (OUTPUT_FOLDER env) (generated_filename env)) \<noteq> Some Dir \<and>
    disk_fault env = Some (n, msg)"
  then show "generate_flashcards_try env fs package =
      (Inl (OSError msg),
       fs(os_path_join (OUTPUT_FOLDER env) (generated_filename env) \<mapsto>
            File (take n archive)))"
    by (simp add: generate_flashcards_try_cases)
next
  fix response fs'
  assume ok: "generate_flashcards env fs package = (Inr response, fs')"
  then show "generate_flashcards_try env fs package = (Inr response, fs')"
    by (auto simp add: generate_flashcards_def split: sum.splits prod.splits)
  from ok show "\<exists>archive. genanki_serialize env (built_decks env package) = Inr archive \<and>
      fs' = fs(os_path_join (OUTPUT_FOLDER env) (generated_filename env) \<mapsto> File archive)"
    by (auto simp add: generate_flashcards_eq split: sum.splits if_splits option.splits)
qed

text \<open>
  Four calls with the example request: one whose generated path is a directory, one on a
  disk that is full after the first byte, one whose serializer raises, and one that
  succeeds.
\<close>

theorem generate_flashcards_internal_error_witness:
  "generate_flashcards example_env [example_path \<mapsto> Dir] example_package =
     (Inl \<lparr>status_code = 500,
           detail = ''An error occurred during flashcard generation: '' @
             ''[Errno 21] Is a directory: '' @ [CHR 0x27] @ example_path @ [CHR 0x27]\<rparr>,
      [example_path \<mapsto> Dir])
   \<and> generate_flashcards full_disk_env Map.empty example_package =
     (Inl \<lparr>status_code = 500,
           detail = ''An error occurred during flashcard generation: '' @
             ''[Errno 28] No space left on device''\<rparr>,
      [example_path \<mapsto> File [2]])
   \<and> generate_flashcards
        (example_env\<lparr>genanki_serialize := (\<lambda>ds. Inl (LibraryError ''database is locked''))\<rparr>)
        Map.empty example_package =
     (Inl \<lparr>status_code = 500,
           detail = ''An error occurred during flashcard generation: database is locked''\<rparr>,
      Map.empty)
   \<and> snd (generate_flashcards example_env Map.empty example_package) example_path =
       Some (File [2, 1])"
proof -
  let ?locked = "example_env\<lparr>genanki_serialize := (\<lambda>ds. Inl (LibraryError ''database is locked''))\<rparr>"
  let ?p = "os_path_join (OUTPUT_FOLDER example_env) (generated_filename example_env)"
  have ser: "genanki_serialize example_env (built_decks example_env example_package) =
      Inr [2, 1]"
    by (simp add: example_env_simps lenient_serialize_def built_decks_example_package)
  have dir: "[example_path \<mapsto> Dir] ?p = Some Dir"
    by (simp add: example_path_eq)
  have locked: "genanki_serialize ?locked (built_decks ?locked example_package) =
      Inl (LibraryError ''database is locked'')"
    by simp
  have full_ser: "genanki_serialize full_disk_env (built_decks full_disk_env example_package) =
      Inr [2, 1]"
    by (simp add: full_disk_env_simps lenient_serialize_def built_decks_example_package)
  have full_path: "os_path_join (OUTPUT_FOLDER full_disk_env) (generated_filename full_disk_env)
      = example_path"
    by (simp add: os_path_join_def full_disk_env_simps generated_filename_def example_path_def)
  have full: "disk_fault full_disk_env = Some (1, ''[Errno 28] No space left on device'')"
    by (simp add: full_disk_env_simps)
  note thm1 = generate_flashcards_internal_error
    [of example_env "[example_path \<mapsto> Dir]" example_package]
  note thm2 = generate_flashcards_internal_error [of ?locked Map.empty example_package]
  note thm3 = generate_flashcards_internal_error [of example_env Map.empty example_package]
  note thm4 = generate_flashcards_internal_error [of full_disk_env Map.empty example_package]
  from thm1 ser dir
  have "generate_flashcards_try example_env [example_path \<mapsto> Dir] example_package =
      (Inl (IsADirectoryError ?p), [example_path \<mapsto> Dir])"
    by blast
  with thm1 have first: "generate_flashcards example_env [example_path \<mapsto> Dir] example_package =
     (Inl \<lparr>status_code = 500,
           detail = ''An error occurred during flashcard generation: '' @
             ''[Errno 21] Is a directory: '' @ [CHR 0x27] @ example_path @ [CHR 0x27]\<rparr>,
      [example_path \<mapsto> Dir])"
    by (simp add: example_path_eq)
  from thm4 full_ser full
  have "generate_flashcards_try full_disk_env Map.empty example_package =
      (Inl (OSError ''[Errno 28] No space left on device''),
       [os_path_join (OUTPUT_FOLDER full_disk_env) (generated_filename full_disk_env) \<mapsto>
          File (take 1 [2, 1])])"
    by simp
  with thm4 have fourth: "generate_flashcards full_disk_env Map.empty example_package =
     (Inl \<lparr>status_code = 500,
           detail = ''An error occurred during flashcard generation: '' @
             ''[Errno 28] No space left on device''\<rparr>,
      [example_path \<mapsto> File [2]])"
    by (simp add: full_path)
  from thm2 locked
  have "generate_flashcards_try ?locked Map.empty example_package =
      (Inl (LibraryError ''database is locked''), Map.empty)"
    by blast
  with thm2 have second: "generate_flashcards ?locked Map.empty example_package =
     (Inl \<lparr>status_code = 500,
           detail = ''An error occurred during flashcard generation: database is locked''\<rparr>,
      Map.empty)"
    by simp
  obtain response fs' where run:
    "generate_flashcards example_env Map.empty example_package = (Inr response, fs')"
    by (simp add: generate_flashcards_eq ser example_env_simps(5))
  with thm3 ser have "fs' = [example_path \<mapsto> File [2, 1]]"
    by (auto simp add: example_path_eq)
  with run have third:
    "snd (generate_flashcards example_env Map.empty example_package) example_path =
       Some (File [2, 1])"
    by simp
  from first second third fourth show ?thesis by blast
qed



text \<open>
  C8. One call builds one model object; its id is the first draw of the call. Every
  note object of every deck handed to the serializer refers to that model object, so the
  same id stands wherever the archive refers to the model. The decks take the draws that
  follow.
\<close>

theorem one_model_per_call:
  "model_id (built_model env package) = draw (random_state env) 0
   \<and> (\<forall>d \<in> set (built_decks env package). \<forall>n \<in> set (gd_notes d).
        gn_model n = built_model env package \<and>
        model_id (gn_model n) = draw (random_state env) 0)
   \<and> generate_flashcards_try env fs package =
       (case write_to_file env (built_decks env package)
               (os_path_join (OUTPUT_FOLDER env) (generated_filename env)) fs of
          (Some e, fs') \<Rightarrow> (Inl e, fs')
        | (None, fs') \<Rightarrow>
            (Inr \<lparr>message = ''Flashcards generated successfully'',
                  download_url = base_url @ ''/download/'' @ generated_filename env\<rparr>, fs'))"
proof -
  have id: "model_id (built_model env package) = draw (random_state env) 0"
    by (simp add: built_model_eq genanki_Model_init_def)
  have "gn_model n = built_model env package"
    if "d \<in> set (built_decks env package)" and "n \<in> set (gd_notes d)" for d n
  proof -
    from that(1) obtain i where "i < length (pkg_decks package)"
      and "d = built_decks env package ! i"
      by (auto simp add: in_set_conv_nth built_decks_length)
    with that(2) show ?thesis
      by (auto simp add: built_decks_nth genanki_Note_init_def)
  qed
  with id show ?thesis
    by (simp add: generate_flashcards_try_eq)
qed

text \<open>
  In the example call the model gets the id of the first draw, and the three notes of the
  two decks all carry it.
\<close>

theorem one_model_per_call_witness:
  "model_id (built_model example_env example_package) = 1073741827
   \<and> map (\<lambda>d. map (\<lambda>n. model_id (gn_model n)) (gd_notes d))
       (built_decks example_env example_package) =
       [[1073741827, 1073741827], [1073741827]]"
proof -
  from one_model_per_call [of example_env example_package Map.empty]
  have id: "model_id (built_model example_env example_package) =
      draw (random_state example_env) 0"
    and refs: "\<forall>d \<in> set (built_decks example_env example_package). \<forall>n \<in> set (gd_notes d).
      model_id (gn_model n) = draw (random_state example_env) 0"
    by blast+
  have draw0: "draw (random_state example_env) 0 = 1073741827"
    by (simp add: draw_eq example_env_simps)
  from refs show ?thesis
    unfolding id draw0 by (simp add: built_decks_example_package)
qed

text \<open>
  C9. A call that succeeds answers with the message and the URL
  \<^verbatim>\<open>https://anki-gen5.onrender.com/download/<filename>\<close>, where the file name is the
  one generated at line 145. The archive was written in that call at the path that joins
  the storage root and this name, and a download of this name from the file system the
  call leaves behind serves the archive.
\<close>

theorem generate_flashcards_download_url:
  assumes "generate_flashcards env fs package = (Inr response, fs')"
  shows "response =
       \<lparr>message = ''Flashcards generated successfully'',
        download_url = ''https://anki-gen5.onrender.com/download/'' @ generated_filename env\<rparr>
   \<and> generated_filename env = ''flashcards_'' @ uuid4_hex env @ ''.apkg''
   \<and> (\<exists>archive root_sep.
         genanki_serialize env (built_decks env package) = Inr archive \<and>
         (root_sep = OUTPUT_FOLDER env \<or> root_sep = OUTPUT_FOLDER env @ ''/'') \<and>
         fs' = fs(root_sep @ generated_filename env \<mapsto> File archive) \<and>
         (\<exists>r. download_file env fs' (generated_filename env) = Inr r \<and>
              FileResponse_body fs' r = Some archive))"
proof -
  let ?p = "os_path_join (OUTPUT_FOLDER env) (generated_filename env)"
  from assms obtain archive where ser: "genanki_serialize env (built_decks env package) = Inr archive"
    and resp: "response = \<lparr>message = ''Flashcards generated successfully'',
        download_url = base_url @ ''/download/'' @ generated_filename env\<rparr>"
    and fs': "fs' = fs(?p \<mapsto> File archive)"
    by (auto simp add: generate_flashcards_eq split: sum.splits if_splits option.splits)
  have p: "?p = OUTPUT_FOLDER env @ generated_filename env \<or>
      ?p = (OUTPUT_FOLDER env @ ''/'') @ generated_filename env"
    by (simp add: os_path_join_def generated_filename_def)
  have dl: "\<exists>r. download_file env fs' (generated_filename env) = Inr r \<and>
      FileResponse_body fs' r = Some archive"
    by (simp add: download_file_def os_path_exists_def FileResponse_body_def fs' Let_def)
  from p ser fs' dl have "\<exists>archive root_sep.
         genanki_serialize env (built_decks env package) = Inr archive \<and>
         (root_sep = OUTPUT_FOLDER env \<or> root_sep = OUTPUT_FOLDER env @ ''/'') \<and>
         fs' = fs(root_sep @ generated_filename env \<mapsto> File archive) \<and>
         (\<exists>r. download_file env fs' (generated_filename env) = Inr r \<and>
              FileResponse_body fs' r = Some archive)"
    by metis
  with resp show ?thesis
    by (simp add: base_url_def generated_filename_def)
qed

text \<open>The example call, from an empty storage root.\<close>

theorem generate_flashcards_download_url_witness:
  "generate_flashcards example_env Map.empty example_package =
     (Inr \<lparr>message = ''Flashcards generated successfully'',
           download_url = ''https://anki-gen5.onrender.com/download/'' @
             ''flashcards_0123456789abcdef0123456789abcdef.apkg''\<rparr>,
      [''/tmp/flashcards_0123456789abcdef0123456789abcdef.apkg'' \<mapsto> File [2, 1]])"
proof -
  have run: "generate_flashcards example_env Map.empty example_package =
     (Inr \<lparr>message = ''Flashcards generated successfully'',
           download_url = base_url @ ''/download/'' @ generated_filename example_env\<rparr>,
      [example_path \<mapsto> File [2, 1]])"
    by (simp add: generate_flashcards_eq example_path_eq example_env_simps(4,5)
        lenient_serialize_def built_decks_example_package)
  from generate_flashcards_download_url [OF run] show ?thesis
    unfolding run by (simp add: generated_filename_def example_env_simps example_path_def)
qed

text \<open>
  C10. In a request body that reaches the endpoint, a model without the key \<^verbatim>\<open>css\<close>
  is built with the empty string as its css, a deck without \<^verbatim>\<open>description\<close> with the
  empty string as its description, a note without \<^verbatim>\<open>tags\<close> with the empty list as
  its tags: the declared defaults, never \<^verbatim>\<open>None\<close>. A note without \<^verbatim>\<open>guid\<close> is
  built with \<^verbatim>\<open>guid=None\<close>, which leaves the identifier to the library.
\<close>

theorem omitted_keys_take_defaults:
  "(mj_css (pj_model j) = Missing \<longrightarrow>
      gm_css (built_model env (parse_Package j)) = Some [])
   \<and> length (built_decks env (parse_Package j)) = length (pj_decks j)
   \<and> (\<forall>i<length (pj_decks j).
        (dj_description (pj_decks j ! i) = Missing \<longrightarrow>
           gd_description (built_decks env (parse_Package j) ! i) = Some [])
      \<and> length (gd_notes (built_decks env (parse_Package j) ! i)) =
          length (dj_notes (pj_decks j ! i))
      \<and> (\<forall>k<length (dj_notes (pj_decks j ! i)).
           (nj_tags (dj_notes (pj_decks j ! i) ! k) = Missing \<longrightarrow>
              gn_tags (gd_notes (built_decks env (parse_Package j) ! i) ! k) = Some [])
         \<and> (nj_guid (dj_notes (pj_decks j ! i) ! k) = Missing \<longrightarrow>
              gn_guid (gd_notes (built_decks env (parse_Package j) ! i) ! k) = None)))"
proof (intro conjI allI impI)
  assume "mj_css (pj_model j) = Missing"
  then show "gm_css (built_model env (parse_Package j)) = Some []"
    by (simp add: built_model_eq genanki_Model_init_def parse_Package_def
        parse_ModelDefinition_def Field_default_def)
next
  show "length (built_decks env (parse_Package j)) = length (pj_decks j)"
    by (simp add: built_decks_length parse_Package_def)
next
  fix i assume "i < length (pj_decks j)" and "dj_description (pj_decks j ! i) = Missing"
  then show "gd_description (built_decks env (parse_Package j) ! i) = Some []"
    by (simp add: built_decks_nth parse_Package_def parse_Deck_def Field_default_def)
next
  fix i assume "i < length (pj_decks j)"
  then show "length (gd_notes (built_decks env (parse_Package j) ! i)) =
      length (dj_notes (pj_decks j ! i))"
    by (simp add: built_decks_nth parse_Package_def parse_Deck_def)
next
  fix i k
  assume "i < length (pj_decks j)" and "k < length (dj_notes (pj_decks j ! i))"
    and "nj_tags (dj_notes (pj_decks j ! i) ! k) = Missing"
  then show "gn_tags (gd_notes (built_decks env (parse_Package j) ! i) ! k) = Some []"
    by (simp add: built_decks_nth parse_Package_def parse_Deck_def parse_Note_def
        genanki_Note_init_def Field_default_def)
next
  fix i k
  assume "i < length (pj_decks j)" and "k < length (dj_notes (pj_decks j ! i))"
    and "nj_guid (dj_notes (pj_decks j ! i) ! k) = Missing"
  then show "gn_guid (gd_notes (built_decks env (parse_Package j) ! i) ! k) = None"
    by (simp add: built_decks_nth parse_Package_def parse_Deck_def parse_Note_def
        genanki_Note_init_def Field_default_def)
qed

text \<open>The request body with no optional key at all.\<close>

theorem omitted_keys_take_defaults_witness:
  "gm_css (built_model example_env (parse_Package bare_json)) = Some []
   \<and> map gd_description (built_decks example_env (parse_Package bare_json)) = [Some []]
   \<and> map (\<lambda>d. map gn_tags (gd_notes d)) (built_decks example_env (parse_Package bare_json)) =
       [[Some []]]
   \<and> map (\<lambda>d. map gn_guid (gd_notes d)) (built_decks example_env (parse_Package bare_json)) =
       [[None]]"
proof -
  have css: "mj_css (pj_model bare_json) = Missing"
    and decks: "length (pj_decks bare_json) = 1"
    and description: "dj_description (pj_decks bare_json ! 0) = Missing"
    and notes0: "length (dj_notes (pj_decks bare_json ! 0)) = 1"
    and tags: "nj_tags (dj_notes (pj_decks bare_json ! 0) ! 0) = Missing"
    and guid: "nj_guid (dj_notes (pj_decks bare_json ! 0) ! 0) = Missing"
    by (simp_all add: bare_json_def)
  note facts = omitted_keys_take_defaults [of bare_json example_env]
  from facts css have c: "gm_css (built_model example_env (parse_Package bare_json)) = Some []"
    by blast
  from facts decks have n: "length (built_decks example_env (parse_Package bare_json)) = 1"
    by simp
  from facts decks description
  have d: "gd_description (built_decks example_env (parse_Package bare_json) ! 0) = Some []"
    by simp
  from facts decks notes0
  have m: "length (gd_notes (built_decks example_env (parse_Package bare_json) ! 0)) = 1"
    by simp
  from facts decks notes0 tags
  have t: "gn_tags (gd_notes (built_decks example_env (parse_Package bare_json) ! 0) ! 0) =
      Some []"
    by simp
  from facts decks notes0 guid
  have g: "gn_guid (gd_notes (built_decks example_env (parse_Package bare_json) ! 0) ! 0) =
      None"
    by simp
  obtain deck where deck: "built_decks example_env (parse_Package bare_json) = [deck]"
    using n by (auto simp add: length_Suc_conv)
  with m obtain entry where entry: "gd_notes deck = [entry]"
    by (auto simp add: length_Suc_conv)
  from c d t g show ?thesis
    by (simp add: deck entry)
qed

section \<open>Further properties\<close>

text \<open>
  X1. The model object of a call is built from the request as supplied: its name, one
  \<^verbatim>\<open>{'name': field}\<close> entry per field name in order, one
  \<^verbatim>\<open>{name, qfmt, afmt}\<close> entry per card template in order with the three strings
  unchanged, and the css as it is. Its id is a value of \<^verbatim>\<open>range(1 << 30, 1 << 31)\<close>.
\<close>

theorem model_built_as_supplied:
  "gm_name (built_model env package) = md_name (pkg_model package)
   \<and> gm_fields (built_model env package) =
       map (\<lambda>field. [(''name'', field)]) (md_fields (pkg_model package))
   \<and> gm_templates (built_model env package) =
       map (\<lambda>t. [(''name'', ct_name t), (''qfmt'', ct_qfmt t), (''afmt'', ct_afmt t)])
         (md_templates (pkg_model package))
   \<and> gm_css (built_model env package) = md_css (pkg_model package)
   \<and> 1073741824 \<le> model_id (built_model env package)
   \<and> model_id (built_model env package) < 2147483648"
  using draw_range [of "random_state env" 0]
  by (simp add: built_model_eq genanki_Model_init_def CardTemplate_dict_def)

theorem model_built_as_supplied_witness:
  "gm_name (built_model example_env example_package) = ''Basic Model''
   \<and> gm_templates (built_model example_env example_package) =
       [[(''name'', ''Card 1''), (''qfmt'', ''{{Front}}''),
         (''afmt'', ''{{FrontSide}}<hr>{{Back}}'')]]
   \<and> gm_css (built_model example_env example_package) = Some ''.card { font-size: 20px; }''"
  using model_built_as_supplied [of example_env example_package]
  by (simp add: example_package_def example_model_def)

end
